theory Spec2Isabelle
  imports Main "HOL-Library.Word"
begin

unbundle bit_operations_syntax

section \<open>C types and the outside world\<close>

text \<open>
  The two translation units \<^verbatim>\<open>zx.c\<close> and \<^verbatim>\<open>overclock.c\<close> are C for Linux on x86-64
  (they include \<^verbatim>\<open>sys/io.h\<close>): \<^verbatim>\<open>int\<close> and \<^verbatim>\<open>unsigned int\<close> have 32 bits,
  \<^verbatim>\<open>unsigned long\<close> has 64 bits, \<^verbatim>\<open>unsigned short\<close> has 16 bits. An \<^verbatim>\<open>int\<close> is read
  with \<open>sint\<close> and compared with \<open><s\<close> and \<open>\<le>s\<close>; \<open>+\<close> on it wraps around.
\<close>

type_synonym c_int = "32 word"
type_synonym c_uint = "32 word"
type_synonym c_ulong = "64 word"
type_synonym c_ushort = "16 word"

text \<open>
  Everything the program does to its environment is an event, appended to a trace in the
  order in which the calls are made: a call of \<^verbatim>\<open>iopl(level)\<close>, a port write
  \<^verbatim>\<open>outl(value, port)\<close>, a call of \<^verbatim>\<open>printf\<close> with the text it formats, a call of
  \<^verbatim>\<open>perror(s)\<close>, and a dialog of \<^verbatim>\<open>MessageBoxA(NULL, text, caption, MB_OK)\<close>.
\<close>

datatype event =
  Iopl c_int
| Outl c_uint c_ushort
| Printf string
| Perror string
| MessageBoxA string string

text \<open>
  The world holds the one answer of the operating system the code depends on, whether
  \<^verbatim>\<open>iopl\<close> is granted to this process, and the trace so far.
\<close>

record world =
  iopl_permitted :: bool
  trace :: "event list"

text \<open>A call either returns to its caller or ends the process through \<^verbatim>\<open>exit(status)\<close>.\<close>

datatype 'a outcome = Returns 'a | Exits c_int

definition emit :: "event \<Rightarrow> world \<Rightarrow> world" where
  "emit e w = w\<lparr>trace := trace w @ [e]\<rparr>"

text \<open>\<^verbatim>\<open>int iopl(int level)\<close>: 0 when granted, -1 (and \<^verbatim>\<open>errno\<close>) otherwise.\<close>

definition iopl :: "c_int \<Rightarrow> world \<Rightarrow> c_int \<times> world" where
  "iopl level w = (if iopl_permitted w then 0 else - 1, emit (Iopl level) w)"

text \<open>\<^verbatim>\<open>void outl(unsigned int value, unsigned short port)\<close>.\<close>

definition outl :: "c_uint \<Rightarrow> c_ushort \<Rightarrow> world \<Rightarrow> world" where
  "outl v port w = emit (Outl v port) w"

text \<open>\<^verbatim>\<open>printf\<close>, given the text already formatted, and \<^verbatim>\<open>perror\<close>, given its prefix.\<close>

definition printf :: "string \<Rightarrow> world \<Rightarrow> world" where
  "printf s w = emit (Printf s) w"

definition perror :: "string \<Rightarrow> world \<Rightarrow> world" where
  "perror s w = emit (Perror s) w"

text \<open>The port writes of a trace, oldest first, each as (port, value).\<close>

fun port_writes :: "event list \<Rightarrow> (c_ushort \<times> c_uint) list" where
  "port_writes [] = []"
| "port_writes (Outl v p # es) = (p, v) # port_writes es"
| "port_writes (e # es) = port_writes es"

text \<open>The number of \<^verbatim>\<open>iopl\<close> calls of a trace.\<close>

fun iopl_calls :: "event list \<Rightarrow> nat" where
  "iopl_calls [] = 0"
| "iopl_calls (Iopl l # es) = Suc (iopl_calls es)"
| "iopl_calls (e # es) = iopl_calls es"

text \<open>What a call added to the trace of the world it started in.\<close>

definition new_events :: "world \<Rightarrow> world \<Rightarrow> event list" where
  "new_events w w' = drop (length (trace w)) (trace w')"

section \<open>The constants of both files\<close>

definition MSR_OC_BASE :: c_int where "MSR_OC_BASE = 0x199"
definition PORT_PROTECT :: c_ushort where "PORT_PROTECT = 0xCF8"
definition PORT_DATA :: c_ushort where "PORT_DATA = 0xCFC"

text \<open>\<^verbatim>\<open>EXIT_FAILURE\<close> of \<^verbatim>\<open>stdlib.h\<close>, 1 in glibc and in the Windows C runtime.\<close>

definition EXIT_FAILURE :: c_int where "EXIT_FAILURE = 1"

section \<open>zx.c\<close>

text \<open>
  The initialisers of the locals \<^verbatim>\<open>msr\<close> and \<^verbatim>\<open>value\<close>: the sum and the bit
  operations are computed in \<^verbatim>\<open>int\<close>, then converted to \<^verbatim>\<open>unsigned long\<close> (sign extension).
\<close>

definition zx_msr :: "c_int \<Rightarrow> c_ulong" where
  "zx_msr core = scast (MSR_OC_BASE + core)"

definition zx_value :: "c_int \<Rightarrow> c_ulong" where
  "zx_value multiplier = scast ((multiplier AND 0xFF) OR 0x10000)"

text \<open>
  \<^verbatim>\<open>void set_cpu_multiplier(int core, int multiplier)\<close> of zx.c. The arguments of
  \<^verbatim>\<open>outl\<close> are converted to its parameter types: the \<^verbatim>\<open>unsigned long\<close> is cut to 32 bits.
\<close>

definition zx_set_cpu_multiplier :: "c_int \<Rightarrow> c_int \<Rightarrow> world \<Rightarrow> unit outcome \<times> world" where
  "zx_set_cpu_multiplier core multiplier w =
     (let msr = zx_msr core;
          value = zx_value multiplier;
          (r, w1) = iopl 3 w
      in if r <s 0 then
           (let w2 = perror ''iopl'' w1 in (Exits 1, w2))
         else
           (let w2 = outl (ucast msr) PORT_PROTECT w1;
                w3 = outl (ucast value) PORT_DATA w2
            in (Returns (), w3)))"

section \<open>overclock.c\<close>

text \<open>The file has two bodies, chosen when it is compiled by \<^verbatim>\<open>_WIN32\<close>.\<close>

datatype platform = Win32 | Linux

definition oc_msr :: "c_int \<Rightarrow> c_ulong" where
  "oc_msr core = scast (MSR_OC_BASE + core)"

definition oc_value :: "c_int \<Rightarrow> c_ulong" where
  "oc_value multiplier = scast ((multiplier AND 0xFF) OR 0x10000)"

definition oc_set_cpu_multiplier ::
    "platform \<Rightarrow> c_int \<Rightarrow> c_int \<Rightarrow> world \<Rightarrow> unit outcome \<times> world" where
  "oc_set_cpu_multiplier pf core multiplier w =
     (case pf of
        Win32 \<Rightarrow>
          (let w1 = emit (MessageBoxA ''Direct I/O not supported in user mode.'' ''Error'') w
           in (Exits EXIT_FAILURE, w1))
      | Linux \<Rightarrow>
          (let msr = oc_msr core;
               value = oc_value multiplier;
               (r, w1) = iopl 3 w
           in if r <s 0 then
                (let w2 = perror ''iopl'' w1 in (Exits EXIT_FAILURE, w2))
              else
                (let w2 = outl (ucast msr) PORT_PROTECT w1;
                     w3 = outl (ucast value) PORT_DATA w2
                 in (Returns (), w3))))"

section \<open>The C library functions that main of zx.c calls\<close>

text \<open>
  \<^verbatim>\<open>atoi(s)\<close> is \<^verbatim>\<open>(int) strtol(s, NULL, 10)\<close>: white space is skipped, one sign is
  read, then decimal digits as long as there are any; when there is none, no conversion
  is performed and the result is 0. \<^verbatim>\<open>strtol\<close> stops at \<^verbatim>\<open>LONG_MAX\<close> and \<^verbatim>\<open>LONG_MIN\<close>,
  and the conversion to \<^verbatim>\<open>int\<close> keeps the low 32 bits (glibc; ISO C leaves a value out of
  the range of \<^verbatim>\<open>int\<close> undefined).
\<close>

definition isspace :: "char \<Rightarrow> bool" where
  "isspace c = (c = CHR '' '' \<or> c = CHR 0x09 \<or> c = CHR 0x0A \<or> c = CHR 0x0B
                \<or> c = CHR 0x0C \<or> c = CHR 0x0D)"

definition isdigit :: "char \<Rightarrow> bool" where
  "isdigit c = (48 \<le> (of_char c :: nat) \<and> (of_char c :: nat) \<le> 57)"

definition digit_value :: "char \<Rightarrow> nat" where
  "digit_value c = of_char c - 48"

fun strtol_digits :: "nat \<Rightarrow> string \<Rightarrow> nat" where
  "strtol_digits acc [] = acc"
| "strtol_digits acc (c # cs) =
     (if isdigit c then strtol_digits (acc * 10 + digit_value c) cs else acc)"

definition LONG_MAX :: int where "LONG_MAX = 2 ^ 63 - 1"
definition LONG_MIN :: int where "LONG_MIN = - (2 ^ 63)"

definition strtol :: "string \<Rightarrow> int" where
  "strtol s =
     (let t = dropWhile isspace s;
          (neg, u) = (case t of
                        [] \<Rightarrow> (False, t)
                      | c # cs \<Rightarrow> if c = CHR ''-'' then (True, cs)
                                 else if c = CHR ''+'' then (False, cs)
                                 else (False, t));
          n = int (strtol_digits 0 u)
      in if neg then max (- n) LONG_MIN else min n LONG_MAX)"

definition atoi :: "string \<Rightarrow> c_int" where
  "atoi s = word_of_int (strtol s)"

text \<open>The conversion \<^verbatim>\<open>%d\<close> of \<^verbatim>\<open>printf\<close>: the decimal digits of an \<^verbatim>\<open>int\<close>, after its sign.\<close>

definition digit_char :: "nat \<Rightarrow> char" where
  "digit_char d = char_of (48 + d)"

fun dec_digits :: "nat \<Rightarrow> string" where
  "dec_digits n =
     (if n < 10 then [digit_char n] else dec_digits (n div 10) @ [digit_char (n mod 10)])"

definition fmt_d :: "c_int \<Rightarrow> string" where
  "fmt_d x = (if sint x < 0 then CHR ''-'' # dec_digits (nat (- sint x))
              else dec_digits (nat (sint x)))"

section \<open>main of zx.c\<close>

text \<open>
  \<^verbatim>\<open>argv\<close> is the list of the arguments and \<^verbatim>\<open>argc\<close> its length. \<^verbatim>\<open>printf\<close> prints
  \<^verbatim>\<open>(null)\<close> for the null pointer that \<^verbatim>\<open>argv[0]\<close> is when the list is empty.
\<close>

definition usage_line :: "string list \<Rightarrow> string" where
  "usage_line argv =
     ''Usage: '' @ (case argv of [] \<Rightarrow> ''(null)'' | a # _ \<Rightarrow> a) @ '' <core> <multiplier>'' @ [CHR 0x0A]"

definition invalid_line :: string where
  "invalid_line = ''Invalid parameters!'' @ [CHR 0x0A]"

definition setting_line :: "c_int \<Rightarrow> c_int \<Rightarrow> string" where
  "setting_line core multi =
     ''Setting core '' @ fmt_d core @ '' to '' @ fmt_d multi @ ''x multiplier'' @ [CHR 0x0A]"

definition main :: "string list \<Rightarrow> world \<Rightarrow> c_int outcome \<times> world" where
  "main argv w =
     (if length argv \<noteq> 3 then
        (let w1 = printf (usage_line argv) w in (Returns 1, w1))
      else
        (let core = atoi (argv ! 1);
             multi = atoi (argv ! 2)
         in if core <s 0 \<or> 15 <s core \<or> multi <s 8 \<or> 255 <s multi then
              (let w1 = printf invalid_line w in (Returns 1, w1))
            else
              (let w1 = printf (setting_line core multi) w;
                   (r, w2) = zx_set_cpu_multiplier core multi w1
               in case r of
                    Exits status \<Rightarrow> (Exits status, w2)
                  | Returns u \<Rightarrow> (Returns 0, w2))))"


text \<open>What \<^verbatim>\<open>main\<close> makes of the engine's outcome: \<^verbatim>\<open>return 0\<close> once the engine returned.\<close>

definition main_after_engine :: "unit outcome \<times> world \<Rightarrow> c_int outcome \<times> world" where
  "main_after_engine rw =
     (case rw of (Exits status, w2) \<Rightarrow> (Exits status, w2) | (Returns u, w2) \<Rightarrow> (Returns 0, w2))"

section \<open>Two starting worlds\<close>

text \<open>A process that has not done anything yet, with and without the right to \<^verbatim>\<open>iopl\<close>.\<close>

definition granted :: world where
  "granted = \<lparr>iopl_permitted = True, trace = []\<rparr>"

definition denied :: world where
  "denied = \<lparr>iopl_permitted = False, trace = []\<rparr>"

section \<open>Conversions between the integer types\<close>

lemma ucast_scast_int: "ucast (scast (x :: c_int) :: c_ulong) = (x :: c_uint)"
  by (rule bit_word_eqI) (auto simp: bit_simps)

lemma sint_nonneg_uint:
  fixes x :: "'a::len word"
  assumes "0 \<le> sint x"
  shows "uint x = sint x"
proof -
  have "(2::int) ^ (LENGTH('a) - 1) \<le> 2 ^ LENGTH('a)"
    by (rule power_increasing) simp_all
  with sint_lt [of x] have "sint x < 2 ^ LENGTH('a)"
    by (rule less_le_trans)
  with assms show ?thesis
    by (simp add: uint_sint [of x] take_bit_int_eq_self)
qed

lemma uint_scast_nonneg:
  assumes "0 \<le> sint (x :: c_int)"
  shows "uint (scast x :: c_ulong) = sint x"
proof -
  have "sint (scast x :: c_ulong) = sint x"
    by (rule sint_up_scast) (simp add: is_up)
  with assms sint_nonneg_uint [of "scast x :: c_ulong"] show ?thesis
    by simp
qed

section \<open>The register address\<close>

lemma address_in_range:
  assumes "0 \<le>s core" and "core \<le>s 15"
  shows "uint (MSR_OC_BASE + core) = 0x199 + sint core"
    and "sint (MSR_OC_BASE + core) = 0x199 + sint core"
proof -
  from assms have r: "0 \<le> sint core" "sint core \<le> 15"
    by (simp_all add: word_sle_eq)
  then have "uint core = sint core"
    by (simp add: sint_nonneg_uint)
  with r show u: "uint (MSR_OC_BASE + core) = 0x199 + sint core"
    by (simp add: MSR_OC_BASE_def uint_word_ariths)
  with r show "sint (MSR_OC_BASE + core) = 0x199 + sint core"
    by (simp add: sint_uint signed_take_bit_int_eq_self)
qed

lemma address_word: "word_of_int (0x199 + sint core) = MSR_OC_BASE + core"
  by (simp add: MSR_OC_BASE_def)

section \<open>The encoded value\<close>

lemma and_255_int: "(x :: int) AND 255 = take_bit 8 x"
  by (simp add: take_bit_eq_mask mask_eq_exp_minus_1)

lemma take_bit_8_sint: "take_bit 8 (sint (m :: c_int)) = take_bit 8 (uint m)"
  by (simp add: sint_uint take_bit_signed_take_bit)

lemma uint_low_byte: "uint (m AND 0xFF :: c_int) = sint m mod 256"
  using take_bit_8_sint [of m] by (simp add: uint_and and_255_int take_bit_eq_mod)

lemma encoded_plus: "((m AND 0xFF) OR 0x10000 :: c_int) = 0x10000 + (m AND 0xFF)"
proof -
  have "(m AND 0xFF) AND 0x10000 = (0 :: c_int)"
    by (simp add: and.assoc)
  then have "(m AND 0xFF) + 0x10000 = (m AND 0xFF) OR (0x10000 :: c_int)"
    by (rule disjunctive_add_eq_or)
  then show ?thesis by (simp add: add.commute)
qed

lemma uint_encoded: "uint ((m AND 0xFF) OR 0x10000 :: c_int) = 0x10000 + sint m mod 256"
proof -
  have "sint m mod 256 < 256" by simp
  then show ?thesis
    unfolding encoded_plus by (simp add: uint_word_ariths uint_low_byte)
qed

lemma sint_encoded: "sint ((m AND 0xFF) OR 0x10000 :: c_int) = 0x10000 + sint m mod 256"
proof -
  have "sint m mod 256 < 256" and "0 \<le> sint m mod 256" by simp_all
  then have "signed_take_bit 31 (0x10000 + sint m mod 256) = 0x10000 + sint m mod 256"
    by (intro signed_take_bit_int_eq_self) simp_all
  then show ?thesis
    by (simp add: sint_uint uint_encoded)
qed

lemma uint_encoded_int:
  "uint ((m AND 0xFF) OR 0x10000 :: c_int) = (sint m AND 0xFF) OR 0x10000"
  using take_bit_8_sint [of m] by (simp add: uint_and uint_or and_255_int)

lemma encoded_word:
  "word_of_int ((sint m AND 0xFF) OR 0x10000) = ((m AND 0xFF) OR 0x10000 :: c_int)"
  by (simp add: uint_encoded_int [symmetric])

lemma uint_encoded_long:
  "uint (scast ((m AND 0xFF) OR 0x10000 :: c_int) :: c_ulong) = 0x10000 + sint m mod 256"
proof -
  have "0 \<le> sint m mod 256" by simp
  then have "0 \<le> sint ((m AND 0xFF) OR 0x10000 :: c_int)"
    by (simp add: sint_encoded)
  then show ?thesis
    by (simp add: uint_scast_nonneg sint_encoded)
qed

section \<open>Traces\<close>

lemma port_writes_append: "port_writes (xs @ ys) = port_writes xs @ port_writes ys"
  by (induction xs rule: port_writes.induct) simp_all

lemma iopl_calls_append: "iopl_calls (xs @ ys) = iopl_calls xs + iopl_calls ys"
  by (induction xs rule: iopl_calls.induct) simp_all

lemma new_events_append: "new_events w (w\<lparr>trace := trace w @ es\<rparr>) = es"
  by (simp add: new_events_def)

lemma new_events_printf: "new_events w (printf s w) = [Printf s]"
  by (simp add: new_events_def printf_def emit_def)

section \<open>What each engine does, in one equation\<close>

lemma zx_run:
  "zx_set_cpu_multiplier core m w =
     (if iopl_permitted w then
        (Returns (), w\<lparr>trace := trace w @ [Iopl 3, Outl (MSR_OC_BASE + core) PORT_PROTECT,
                                             Outl ((m AND 0xFF) OR 0x10000) PORT_DATA]\<rparr>)
      else (Exits 1, w\<lparr>trace := trace w @ [Iopl 3, Perror ''iopl'']\<rparr>))"
  by (simp add: zx_set_cpu_multiplier_def zx_msr_def zx_value_def iopl_def outl_def
      perror_def emit_def ucast_scast_int word_sless_alt)

lemma oc_linux_run:
  "oc_set_cpu_multiplier Linux core m w =
     (if iopl_permitted w then
        (Returns (), w\<lparr>trace := trace w @ [Iopl 3, Outl (MSR_OC_BASE + core) PORT_PROTECT,
                                             Outl ((m AND 0xFF) OR 0x10000) PORT_DATA]\<rparr>)
      else (Exits EXIT_FAILURE, w\<lparr>trace := trace w @ [Iopl 3, Perror ''iopl'']\<rparr>))"
  by (simp add: oc_set_cpu_multiplier_def oc_msr_def oc_value_def iopl_def outl_def
      perror_def emit_def ucast_scast_int word_sless_alt)

lemma oc_win32_run:
  "oc_set_cpu_multiplier Win32 core m w =
     (Exits EXIT_FAILURE,
      w\<lparr>trace := trace w @ [MessageBoxA ''Direct I/O not supported in user mode.'' ''Error'']\<rparr>)"
  by (simp add: oc_set_cpu_multiplier_def emit_def)

section \<open>What main does with three arguments\<close>

lemma main_three:
  "main [prog, a1, a2] w =
     (if atoi a1 <s 0 \<or> 15 <s atoi a1 \<or> atoi a2 <s 8 \<or> 255 <s atoi a2 then
        (Returns 1, printf invalid_line w)
      else main_after_engine
             (zx_set_cpu_multiplier (atoi a1) (atoi a2)
                (printf (setting_line (atoi a1) (atoi a2)) w)))"
  by (simp add: main_def main_after_engine_def Let_def split: prod.splits outcome.splits)

lemma new_events_zx_after_printf:
  "new_events w (snd (zx_set_cpu_multiplier c m (printf s w))) =
     Printf s # new_events (printf s w) (snd (zx_set_cpu_multiplier c m (printf s w)))"
  by (simp add: zx_run new_events_def printf_def emit_def)

lemma snd_main_after_engine: "snd (main_after_engine rw) = snd rw"
  by (simp add: main_after_engine_def split: prod.splits outcome.splits)

lemma engine_starts_with_iopl:
  "take 1 (new_events w (snd (zx_set_cpu_multiplier c m w))) = [Iopl 3]"
  by (simp add: zx_run new_events_append)

lemma zx_returns:
  assumes "zx_set_cpu_multiplier core m w = (Returns (), w1)"
  shows "new_events w w1 =
           [Iopl 3, Outl (MSR_OC_BASE + core) PORT_PROTECT, Outl ((m AND 0xFF) OR 0x10000) PORT_DATA]"
  using assms by (auto simp: zx_run new_events_append split: if_splits)

lemma oc_linux_returns:
  assumes "oc_set_cpu_multiplier Linux core m w = (Returns (), w1)"
  shows "new_events w w1 =
           [Iopl 3, Outl (MSR_OC_BASE + core) PORT_PROTECT, Outl ((m AND 0xFF) OR 0x10000) PORT_DATA]"
  using assms by (auto simp: oc_linux_run new_events_append split: if_splits)

section \<open>atoi on a string without a number\<close>


section \<open>atoi on digits followed by something else\<close>




section \<open>The guard of main, on the values that atoi returns\<close>

text \<open>
  On the two \<^verbatim>\<open>int\<close> values that \<^verbatim>\<open>atoi\<close> returns the guard is exact. A value out of range
  makes \<^verbatim>\<open>main\<close> print \<^verbatim>\<open>Invalid parameters!\<close> and return 1 with no \<^verbatim>\<open>iopl\<close> call and no
  port write. Two values in range make it print the confirmation line and then run the
  engine from the world that holds that line.
\<close>

lemma main_guard_on_values_read:
  "(sint (atoi a1) < 0 \<or> 15 < sint (atoi a1) \<or> sint (atoi a2) < 8 \<or> 255 < sint (atoi a2) \<longrightarrow>
      fst (main [prog, a1, a2] w) = Returns 1
      \<and> new_events w (snd (main [prog, a1, a2] w)) = [Printf invalid_line]
      \<and> iopl_calls (new_events w (snd (main [prog, a1, a2] w))) = 0
      \<and> port_writes (new_events w (snd (main [prog, a1, a2] w))) = [])
   \<and> (0 \<le> sint (atoi a1) \<and> sint (atoi a1) \<le> 15 \<and> 8 \<le> sint (atoi a2) \<and> sint (atoi a2) \<le> 255 \<longrightarrow>
      main [prog, a1, a2] w =
        main_after_engine
          (zx_set_cpu_multiplier (atoi a1) (atoi a2) (printf (setting_line (atoi a1) (atoi a2)) w))
      \<and> new_events w (snd (main [prog, a1, a2] w)) =
          Printf (setting_line (atoi a1) (atoi a2)) #
          new_events (printf (setting_line (atoi a1) (atoi a2)) w)
            (snd (zx_set_cpu_multiplier (atoi a1) (atoi a2)
               (printf (setting_line (atoi a1) (atoi a2)) w)))
      \<and> take 2 (new_events w (snd (main [prog, a1, a2] w))) =
          [Printf (setting_line (atoi a1) (atoi a2)), Iopl 3])"
proof (intro conjI impI)
  assume "sint (atoi a1) < 0 \<or> 15 < sint (atoi a1) \<or> sint (atoi a2) < 8 \<or> 255 < sint (atoi a2)"
  then have bad: "atoi a1 <s 0 \<or> 15 <s atoi a1 \<or> atoi a2 <s 8 \<or> 255 <s atoi a2"
    by (simp add: word_sless_alt)
  then have m: "main [prog, a1, a2] w = (Returns 1, printf invalid_line w)"
    by (simp only: main_three if_True)
  show "fst (main [prog, a1, a2] w) = Returns 1"
    by (simp add: m)
  show e: "new_events w (snd (main [prog, a1, a2] w)) = [Printf invalid_line]"
    by (simp add: m new_events_printf)
  show "iopl_calls (new_events w (snd (main [prog, a1, a2] w))) = 0"
    by (simp add: e)
  show "port_writes (new_events w (snd (main [prog, a1, a2] w))) = []"
    by (simp add: e)
next
  assume "0 \<le> sint (atoi a1) \<and> sint (atoi a1) \<le> 15 \<and> 8 \<le> sint (atoi a2) \<and> sint (atoi a2) \<le> 255"
  then have ok: "\<not> (atoi a1 <s 0 \<or> 15 <s atoi a1 \<or> atoi a2 <s 8 \<or> 255 <s atoi a2)"
    by (simp add: word_sless_alt)
  then show m: "main [prog, a1, a2] w =
        main_after_engine
          (zx_set_cpu_multiplier (atoi a1) (atoi a2) (printf (setting_line (atoi a1) (atoi a2)) w))"
    by (simp only: main_three if_False)
  show e: "new_events w (snd (main [prog, a1, a2] w)) =
          Printf (setting_line (atoi a1) (atoi a2)) #
          new_events (printf (setting_line (atoi a1) (atoi a2)) w)
            (snd (zx_set_cpu_multiplier (atoi a1) (atoi a2)
               (printf (setting_line (atoi a1) (atoi a2)) w)))"
    by (simp only: m snd_main_after_engine new_events_zx_after_printf)
  have "take 2 (Printf s # es) = Printf s # take 1 es" for s es
    by (simp add: numeral_2_eq_2)
  then show "take 2 (new_events w (snd (main [prog, a1, a2] w))) =
          [Printf (setting_line (atoi a1) (atoi a2)), Iopl 3]"
    by (simp only: e engine_starts_with_iopl)
qed

section \<open>The claims\<close>

text \<open>
  Claim C1. For every core from 0 to 15 and every multiplier from 8 to 255, a call of
  \<^verbatim>\<open>set_cpu_multiplier\<close> (where \<^verbatim>\<open>iopl\<close> is granted, so that the writes happen) computes
  the register address 0x199 + core and the encoded value (multiplier & 0xFF) | 0x10000,
  both read as integers, and writes that address to port 0xCF8 and that value to port
  0xCFC, whatever the world the call starts in. In particular core 15 and multiplier 255
  give 0x1A8 and 0x100FF, and core 0 and multiplier 8 give 0x199 and 0x10008. This holds of
  the engine of zx.c and of the Linux body of overclock.c.
\<close>

theorem set_cpu_multiplier_address_and_value:
  assumes "0 \<le>s core" and "core \<le>s 15" and "8 \<le>s multiplier" and "multiplier \<le>s 255"
    and "iopl_permitted w"
  shows "uint (zx_msr core) = 0x199 + sint core
       \<and> uint (zx_value multiplier) = (sint multiplier AND 0xFF) OR 0x10000
       \<and> port_writes (new_events w (snd (zx_set_cpu_multiplier core multiplier w))) =
           [(0xCF8, word_of_int (0x199 + sint core)),
            (0xCFC, word_of_int ((sint multiplier AND 0xFF) OR 0x10000))]
       \<and> uint (oc_msr core) = 0x199 + sint core
       \<and> uint (oc_value multiplier) = (sint multiplier AND 0xFF) OR 0x10000
       \<and> port_writes (new_events w (snd (oc_set_cpu_multiplier Linux core multiplier w))) =
           [(0xCF8, word_of_int (0x199 + sint core)),
            (0xCFC, word_of_int ((sint multiplier AND 0xFF) OR 0x10000))]
       \<and> port_writes (new_events w (snd (zx_set_cpu_multiplier 15 255 w))) =
           [(0xCF8, 0x1A8), (0xCFC, 0x100FF)]
       \<and> port_writes (new_events w (snd (zx_set_cpu_multiplier 0 8 w))) =
           [(0xCF8, 0x199), (0xCFC, 0x10008)]
       \<and> port_writes (new_events w (snd (oc_set_cpu_multiplier Linux 15 255 w))) =
           [(0xCF8, 0x1A8), (0xCFC, 0x100FF)]
       \<and> port_writes (new_events w (snd (oc_set_cpu_multiplier Linux 0 8 w))) =
           [(0xCF8, 0x199), (0xCFC, 0x10008)]"
proof -
  from assms(1,2) have "0 \<le> sint (MSR_OC_BASE + core)"
    by (simp add: address_in_range word_sle_eq)
  then have msr: "uint (scast (MSR_OC_BASE + core) :: c_ulong) = 0x199 + sint core"
    using assms(1,2) by (simp add: uint_scast_nonneg address_in_range)
  have val: "uint (scast ((multiplier AND 0xFF) OR 0x10000 :: c_int) :: c_ulong)
             = (sint multiplier AND 0xFF) OR 0x10000"
    by (simp add: uint_encoded_long uint_encoded_int [symmetric] uint_encoded)
  have zx: "port_writes (new_events w (snd (zx_set_cpu_multiplier c m w))) =
              [(0xCF8, MSR_OC_BASE + c), (0xCFC, (m AND 0xFF) OR 0x10000)]" for c m
    using assms(5)
    by (simp add: zx_run new_events_append PORT_PROTECT_def PORT_DATA_def)
  have oc: "port_writes (new_events w (snd (oc_set_cpu_multiplier Linux c m w))) =
              [(0xCF8, MSR_OC_BASE + c), (0xCFC, (m AND 0xFF) OR 0x10000)]" for c m
    using assms(5)
    by (simp add: oc_linux_run new_events_append PORT_PROTECT_def PORT_DATA_def)
  have ex: "MSR_OC_BASE + 15 = 0x1A8" "MSR_OC_BASE + 0 = 0x199"
    "((255 AND 0xFF) OR 0x10000 :: c_int) = 0x100FF" "((8 AND 0xFF) OR 0x10000 :: c_int) = 0x10008"
    by (simp_all add: MSR_OC_BASE_def)
  show ?thesis
    unfolding zx oc ex
    using msr val
    by (simp add: zx_msr_def zx_value_def oc_msr_def oc_value_def address_word encoded_word
        MSR_OC_BASE_def)
qed

text \<open>The claim at core 15 and multiplier 255, in a process that has the privilege.\<close>

theorem set_cpu_multiplier_address_and_value_witness:
  "0 \<le>s (15 :: c_int) \<and> (15 :: c_int) \<le>s 15 \<and> 8 \<le>s (255 :: c_int) \<and> (255 :: c_int) \<le>s 255
   \<and> iopl_permitted granted
   \<and> uint (zx_msr 15) = 0x1A8 \<and> uint (zx_value 255) = 0x100FF
   \<and> port_writes (new_events granted (snd (zx_set_cpu_multiplier 15 255 granted))) =
           [(0xCF8, 0x1A8), (0xCFC, 0x100FF)]
   \<and> port_writes (new_events granted (snd (oc_set_cpu_multiplier Linux 15 255 granted))) =
           [(0xCF8, 0x1A8), (0xCFC, 0x100FF)]"
proof -
  have h: "0 \<le>s (15 :: c_int)" "(15 :: c_int) \<le>s 15" "8 \<le>s (255 :: c_int)"
    "(255 :: c_int) \<le>s 255" "iopl_permitted granted"
    by (simp_all add: word_sle_eq granted_def)
  have "(255 :: int) AND 255 = 255" by (simp add: and_255_int)
  then show ?thesis
    using h set_cpu_multiplier_address_and_value [OF h] by simp
qed

text \<open>
  Claim C2. In every call of \<^verbatim>\<open>set_cpu_multiplier\<close> that returns, what the call adds to
  the trace is \<^verbatim>\<open>iopl(3)\<close>, then the write of the register address to the index port
  0xCF8, then the write of the encoded value to the data port 0xCFC, and nothing else: the
  index write comes strictly before the data write.
\<close>

theorem index_write_before_data_write:
  "(fst (zx_set_cpu_multiplier core multiplier w) = Returns () \<longrightarrow>
      new_events w (snd (zx_set_cpu_multiplier core multiplier w)) =
        [Iopl 3, Outl (ucast (zx_msr core)) 0xCF8, Outl (ucast (zx_value multiplier)) 0xCFC])
   \<and> (fst (oc_set_cpu_multiplier Linux core multiplier w) = Returns () \<longrightarrow>
      new_events w (snd (oc_set_cpu_multiplier Linux core multiplier w)) =
        [Iopl 3, Outl (ucast (oc_msr core)) 0xCF8, Outl (ucast (oc_value multiplier)) 0xCFC])"
  by (simp add: zx_run oc_linux_run new_events_append PORT_PROTECT_def PORT_DATA_def
      zx_msr_def zx_value_def oc_msr_def oc_value_def ucast_scast_int)

text \<open>A call that returns: core 0, multiplier 8, with the privilege.\<close>

theorem index_write_before_data_write_witness:
  "fst (zx_set_cpu_multiplier 0 8 granted) = Returns ()
   \<and> new_events granted (snd (zx_set_cpu_multiplier 0 8 granted)) =
        [Iopl 3, Outl 0x199 0xCF8, Outl 0x10008 0xCFC]
   \<and> fst (oc_set_cpu_multiplier Linux 0 8 granted) = Returns ()
   \<and> new_events granted (snd (oc_set_cpu_multiplier Linux 0 8 granted)) =
        [Iopl 3, Outl 0x199 0xCF8, Outl 0x10008 0xCFC]"
proof -
  have z: "fst (zx_set_cpu_multiplier 0 8 granted) = Returns ()"
    and o: "fst (oc_set_cpu_multiplier Linux 0 8 granted) = Returns ()"
    by (simp_all add: zx_run oc_linux_run granted_def)
  have v: "ucast (zx_msr 0) = (0x199 :: c_uint)" "ucast (zx_value 8) = (0x10008 :: c_uint)"
    "ucast (oc_msr 0) = (0x199 :: c_uint)" "ucast (oc_value 8) = (0x10008 :: c_uint)"
    by (simp_all add: zx_msr_def zx_value_def oc_msr_def oc_value_def MSR_OC_BASE_def)
  from index_write_before_data_write [of 0 8 granted] z o v show ?thesis
    by simp
qed

text \<open>
  Claim C3. When \<^verbatim>\<open>iopl\<close> fails, \<^verbatim>\<open>set_cpu_multiplier\<close> fails too: it prints the
  diagnostic of \<^verbatim>\<open>perror("iopl")\<close>, the code's report of the denied privilege, and ends with
  status 1. It reaches neither \<^verbatim>\<open>outl\<close>: the port writes of the trace are those that were
  there before the call. This is the only path of the Linux engine that fails.
\<close>

theorem no_port_write_without_privilege:
  assumes "\<not> iopl_permitted w"
  shows "fst (zx_set_cpu_multiplier core multiplier w) = Exits 1
       \<and> new_events w (snd (zx_set_cpu_multiplier core multiplier w)) = [Iopl 3, Perror ''iopl'']
       \<and> port_writes (trace (snd (zx_set_cpu_multiplier core multiplier w))) = port_writes (trace w)
       \<and> fst (oc_set_cpu_multiplier Linux core multiplier w) = Exits EXIT_FAILURE
       \<and> new_events w (snd (oc_set_cpu_multiplier Linux core multiplier w)) = [Iopl 3, Perror ''iopl'']
       \<and> port_writes (trace (snd (oc_set_cpu_multiplier Linux core multiplier w))) = port_writes (trace w)"
  using assms by (simp add: zx_run oc_linux_run new_events_append port_writes_append)

text \<open>A call without the privilege, from an empty trace.\<close>

theorem no_port_write_without_privilege_witness:
  "\<not> iopl_permitted denied
   \<and> fst (zx_set_cpu_multiplier 15 255 denied) = Exits 1
   \<and> trace (snd (zx_set_cpu_multiplier 15 255 denied)) = [Iopl 3, Perror ''iopl'']
   \<and> port_writes (trace (snd (zx_set_cpu_multiplier 15 255 denied))) = []
   \<and> fst (oc_set_cpu_multiplier Linux 15 255 denied) = Exits 1
   \<and> port_writes (trace (snd (oc_set_cpu_multiplier Linux 15 255 denied))) = []"
proof -
  have h: "\<not> iopl_permitted denied" by (simp add: denied_def)
  from h no_port_write_without_privilege [OF h, of 15 255] show ?thesis
    by (simp add: denied_def new_events_def EXIT_FAILURE_def)
qed

text \<open>
  Claim C4, as the spec states it, fails: for every error kind the engine is to hand its
  caller an error value and not end the process itself. The engine of both files is
  \<^verbatim>\<open>void\<close> and calls \<^verbatim>\<open>exit\<close>: without the privilege, and in the Windows build, the
  call ends the process with status 1 and never returns.
\<close>

theorem engine_exits_on_denied_privilege_counterexample:
  "fst (zx_set_cpu_multiplier 0 8 denied) = Exits 1
   \<and> fst (oc_set_cpu_multiplier Linux 0 8 denied) = Exits 1
   \<and> fst (oc_set_cpu_multiplier Win32 0 8 granted) = Exits 1"
  by (simp add: zx_run oc_linux_run oc_win32_run denied_def EXIT_FAILURE_def)

text \<open>
  Claim C4, amended. The engine reports an error only by ending the process. The Linux
  engine of both files returns (no value: it is \<^verbatim>\<open>void\<close>) exactly when \<^verbatim>\<open>iopl\<close> is
  granted, and otherwise calls \<^verbatim>\<open>exit\<close> with status 1, after \<^verbatim>\<open>perror("iopl")\<close>; the
  Windows build always calls \<^verbatim>\<open>exit(EXIT_FAILURE)\<close>, which is status 1. Which of the two
  happens does not depend on the core or the multiplier: the engine checks no range, and
  an invalid argument is rejected by \<^verbatim>\<open>main\<close> alone.
\<close>

theorem engine_ends_process_on_error:
  "fst (zx_set_cpu_multiplier core multiplier w) =
     (if iopl_permitted w then Returns () else Exits 1)
   \<and> fst (oc_set_cpu_multiplier Linux core multiplier w) =
     (if iopl_permitted w then Returns () else Exits 1)
   \<and> fst (oc_set_cpu_multiplier Win32 core multiplier w) = Exits 1"
  by (simp add: zx_run oc_linux_run oc_win32_run EXIT_FAILURE_def)

text \<open>
  Claim C5. \<^verbatim>\<open>main\<close> is to reject every pair of arguments whose core is outside 0..15 or
  whose multiplier is outside 8..255, with a nonzero exit status and before the engine is
  called, and to print a confirmation line before it calls the engine for a pair in range.
  The guard of \<^verbatim>\<open>main\<close> tests the \<^verbatim>\<open>int\<close> that \<^verbatim>\<open>atoi\<close> returns, and \<^verbatim>\<open>atoi\<close> keeps the low
  32 bits of a number that does not fit: the core 4294967296 is read as 0 and the
  multiplier 4294967304 as 8. For these two arguments, both far outside their ranges,
  \<^verbatim>\<open>main\<close> prints the confirmation for core 0 and multiplier 8, calls the engine, which
  writes 0x199 to port 0xCF8 and 0x10008 to port 0xCFC, and returns 0.
\<close>

theorem main_accepts_numbers_beyond_int:
  "atoi ''4294967296'' = 0 \<and> atoi ''4294967304'' = 8
   \<and> main [''zx'', ''4294967296'', ''4294967304''] granted =
     (Returns 0, \<lparr>iopl_permitted = True,
                   trace = [Printf (''Setting core 0 to 8x multiplier'' @ [CHR 0x0A]),
                            Iopl 3, Outl 0x199 0xCF8, Outl 0x10008 0xCFC]\<rparr>)"
proof -
  have a: "atoi ''4294967296'' = 0" "atoi ''4294967304'' = 8"
    by (simp_all add: atoi_def strtol_def isspace_def isdigit_def digit_value_def LONG_MAX_def)
  have l: "setting_line 0 8 = ''Setting core 0 to 8x multiplier'' @ [CHR 0x0A]"
    by code_simp
  show ?thesis
    by (simp add: main_three a l word_sless_alt main_after_engine_def zx_run
        printf_def emit_def granted_def MSR_OC_BASE_def PORT_PROTECT_def PORT_DATA_def)
qed

text \<open>
  Claim C6. Two calls of \<^verbatim>\<open>set_cpu_multiplier\<close> with the same core and multiplier, the
  second starting where the first ended and both returning, add the same two port writes
  to the trace; and so does a call with these arguments from any other world in which it
  returns. The engine keeps nothing between calls: its port writes are a function of its
  two arguments. The engine is that of zx.c or the Linux body of that of overclock.c.
\<close>

theorem repeated_call_same_port_writes:
  assumes "engine = zx_set_cpu_multiplier \<or> engine = oc_set_cpu_multiplier Linux"
    and "engine core multiplier w = (Returns (), w1)"
    and "engine core multiplier w1 = (Returns (), w2)"
    and "engine core multiplier w' = (Returns (), w1')"
  shows "port_writes (new_events w1 w2) = port_writes (new_events w w1)
       \<and> port_writes (new_events w' w1') = port_writes (new_events w w1)
       \<and> port_writes (new_events w w1) =
           [(0xCF8, ucast (zx_msr core)), (0xCFC, ucast (zx_value multiplier))]"
proof -
  let ?es = "[Iopl 3, Outl (MSR_OC_BASE + core) PORT_PROTECT,
              Outl ((multiplier AND 0xFF) OR 0x10000) PORT_DATA]"
  have "new_events w w1 = ?es \<and> new_events w1 w2 = ?es \<and> new_events w' w1' = ?es"
    using assms by (auto simp: zx_returns oc_linux_returns)
  then show ?thesis
    by (simp add: zx_msr_def zx_value_def ucast_scast_int PORT_PROTECT_def PORT_DATA_def)
qed

text \<open>Core 3 and multiplier 40, twice in a row, in a process that has the privilege.\<close>

theorem repeated_call_same_port_writes_witness:
  "zx_set_cpu_multiplier 3 40 granted =
     (Returns (), \<lparr>iopl_permitted = True, trace = [Iopl 3, Outl 0x19C 0xCF8, Outl 0x10028 0xCFC]\<rparr>)
   \<and> zx_set_cpu_multiplier 3 40
       \<lparr>iopl_permitted = True, trace = [Iopl 3, Outl 0x19C 0xCF8, Outl 0x10028 0xCFC]\<rparr> =
     (Returns (), \<lparr>iopl_permitted = True,
                   trace = [Iopl 3, Outl 0x19C 0xCF8, Outl 0x10028 0xCFC,
                            Iopl 3, Outl 0x19C 0xCF8, Outl 0x10028 0xCFC]\<rparr>)
   \<and> port_writes (new_events
        \<lparr>iopl_permitted = True, trace = [Iopl 3, Outl 0x19C 0xCF8, Outl 0x10028 0xCFC]\<rparr>
        \<lparr>iopl_permitted = True,
          trace = [Iopl 3, Outl 0x19C 0xCF8, Outl 0x10028 0xCFC,
                   Iopl 3, Outl 0x19C 0xCF8, Outl 0x10028 0xCFC]\<rparr>)
     = port_writes (new_events granted
        \<lparr>iopl_permitted = True, trace = [Iopl 3, Outl 0x19C 0xCF8, Outl 0x10028 0xCFC]\<rparr>)
   \<and> port_writes (new_events granted
        \<lparr>iopl_permitted = True, trace = [Iopl 3, Outl 0x19C 0xCF8, Outl 0x10028 0xCFC]\<rparr>)
     = [(0xCF8, 0x19C), (0xCFC, 0x10028)]"
proof -
  let ?w1 = "\<lparr>iopl_permitted = True, trace = [Iopl 3, Outl 0x19C 0xCF8, Outl 0x10028 0xCFC]\<rparr>"
  let ?w2 = "\<lparr>iopl_permitted = True,
               trace = [Iopl 3, Outl 0x19C 0xCF8, Outl 0x10028 0xCFC,
                        Iopl 3, Outl 0x19C 0xCF8, Outl 0x10028 0xCFC]\<rparr>"
  have e: "zx_set_cpu_multiplier = zx_set_cpu_multiplier \<or>
           zx_set_cpu_multiplier = oc_set_cpu_multiplier Linux"
    by simp
  have v: "((40 :: c_int) AND 0xFF) OR 0x10000 = 0x10028"
    by simp
  have c1: "zx_set_cpu_multiplier 3 40 granted = (Returns (), ?w1)"
    by (simp add: zx_run granted_def MSR_OC_BASE_def PORT_PROTECT_def PORT_DATA_def)
  have c2: "zx_set_cpu_multiplier 3 40 ?w1 = (Returns (), ?w2)"
    by (simp add: zx_run MSR_OC_BASE_def PORT_PROTECT_def PORT_DATA_def)
  have u: "ucast (zx_msr 3) = (0x19C :: c_uint)" "ucast (zx_value 40) = (0x10028 :: c_uint)"
    by (simp_all add: zx_msr_def zx_value_def MSR_OC_BASE_def)
  from repeated_call_same_port_writes [OF e c1 c2 c1] c1 c2 u show ?thesis
    by simp
qed

text \<open>
  Claim C7. In the Windows build of overclock.c every call of \<^verbatim>\<open>set_cpu_multiplier\<close>, for
  any core and multiplier, reports that direct I/O is not supported (a message box) and
  ends with \<^verbatim>\<open>exit(EXIT_FAILURE)\<close>, a nonzero status. That dialog is all it adds to the
  trace: no port write, and no call of \<^verbatim>\<open>iopl\<close>.
\<close>

theorem win32_build_refuses_without_hardware_access:
  "fst (oc_set_cpu_multiplier Win32 core multiplier w) = Exits EXIT_FAILURE
   \<and> EXIT_FAILURE \<noteq> 0
   \<and> new_events w (snd (oc_set_cpu_multiplier Win32 core multiplier w)) =
       [MessageBoxA ''Direct I/O not supported in user mode.'' ''Error'']
   \<and> port_writes (trace (snd (oc_set_cpu_multiplier Win32 core multiplier w))) =
       port_writes (trace w)
   \<and> iopl_calls (trace (snd (oc_set_cpu_multiplier Win32 core multiplier w))) =
       iopl_calls (trace w)"
  by (simp add: oc_win32_run new_events_append port_writes_append iopl_calls_append
      EXIT_FAILURE_def)

text \<open>
  Claim C8. For every \<^verbatim>\<open>int\<close> multiplier, in the range [8,255] or not, the encoded value
  that \<^verbatim>\<open>set_cpu_multiplier\<close> computes and hands to \<^verbatim>\<open>outl\<close> has bit 16 set, its low 8
  bits are the multiplier modulo 256 (the mathematical remainder, from 0 to 255), its bits
  8 to 15 are clear, and it lies between 0x10000 and 0x100FF inclusive. This holds of the
  32-bit argument of \<^verbatim>\<open>outl\<close> and of the 64-bit local \<^verbatim>\<open>value\<close>, in zx.c and in
  overclock.c.
\<close>

theorem encoded_value_layout:
  "bit (ucast (zx_value multiplier) :: c_uint) 16
   \<and> uint ((ucast (zx_value multiplier) :: c_uint) AND 0xFF) = sint multiplier mod 256
   \<and> (ucast (zx_value multiplier) :: c_uint) AND 0xFF00 = 0
   \<and> 0x10000 \<le> (ucast (zx_value multiplier) :: c_uint)
   \<and> (ucast (zx_value multiplier) :: c_uint) \<le> 0x100FF
   \<and> uint (zx_value multiplier) = 0x10000 + sint multiplier mod 256
   \<and> bit (ucast (oc_value multiplier) :: c_uint) 16
   \<and> uint ((ucast (oc_value multiplier) :: c_uint) AND 0xFF) = sint multiplier mod 256
   \<and> (ucast (oc_value multiplier) :: c_uint) AND 0xFF00 = 0
   \<and> 0x10000 \<le> (ucast (oc_value multiplier) :: c_uint)
   \<and> (ucast (oc_value multiplier) :: c_uint) \<le> 0x100FF
   \<and> uint (oc_value multiplier) = 0x10000 + sint multiplier mod 256"
proof -
  let ?v = "(multiplier AND 0xFF) OR 0x10000 :: c_uint"
  have z: "(ucast (zx_value multiplier) :: c_uint) = ?v"
    by (simp add: zx_value_def ucast_scast_int)
  have o: "(ucast (oc_value multiplier) :: c_uint) = ?v"
    by (simp add: oc_value_def ucast_scast_int)
  have b16: "bit ?v 16"
    by (simp add: bit_simps)
  have low: "?v AND 0xFF = multiplier AND 0xFF"
    by (simp add: word_ao_dist and.assoc)
  have mid: "?v AND 0xFF00 = 0"
    by (simp add: word_ao_dist and.assoc)
  have "0 \<le> sint multiplier mod 256" and "sint multiplier mod 256 < 256"
    by simp_all
  then have rng: "0x10000 \<le> ?v" "?v \<le> 0x100FF"
    by (simp_all add: word_le_def uint_encoded)
  have lz: "uint (zx_value multiplier) = 0x10000 + sint multiplier mod 256"
    by (simp add: zx_value_def uint_encoded_long)
  have lo: "uint (oc_value multiplier) = 0x10000 + sint multiplier mod 256"
    by (simp add: oc_value_def uint_encoded_long)
  show ?thesis
    unfolding z o low using b16 mid rng lz lo by (simp add: uint_low_byte)
qed




text \<open>
  Claim C10. The engine of zx.c and the Linux body of the engine of overclock.c are the same
  function: for every core, multiplier and world they compute the same \<^verbatim>\<open>msr\<close> and
  \<^verbatim>\<open>value\<close>, end the same way and leave the same trace, so the same two port writes in the
  same order (\<^verbatim>\<open>exit(1)\<close> in one is \<^verbatim>\<open>exit(EXIT_FAILURE)\<close> in the other).
\<close>

theorem engines_agree:
  "zx_msr core = oc_msr core
   \<and> zx_value multiplier = oc_value multiplier
   \<and> zx_set_cpu_multiplier core multiplier w = oc_set_cpu_multiplier Linux core multiplier w"
  by (simp add: zx_msr_def oc_msr_def zx_value_def oc_value_def zx_run oc_linux_run
      EXIT_FAILURE_def)

end
